theory Spec2Isabelle
  imports Complex_Main "HOL-Library.Word"
begin

section \<open>The viewer of \<^verbatim>\<open>main.cpp\<close>: data\<close>

text \<open>
  \<^verbatim>\<open>main.cpp\<close> is glue between SDL, OpenGL, Dear ImGui, tinyobjloader and OSPRay.
  The model keeps the program's own control flow and records, in program order, every
  call it makes into those libraries. What a library answers is an input: it is read
  from the environment record \<open>env\<close> below. Values of C type \<^verbatim>\<open>float\<close> that only
  pass through the program are of an arbitrary type \<open>'f\<close>.
\<close>

subsection \<open>SDL events\<close>

datatype SDL_EventType =
  SDL_QUIT | SDL_KEYDOWN | SDL_KEYUP | SDL_WINDOWEVENT
  | SDL_MOUSEMOTION | SDL_MOUSEBUTTONDOWN | SDL_MOUSEWHEEL | SDL_OTHEREVENT nat

datatype SDL_Keycode = SDLK_ESCAPE | SDLK_OTHER nat

datatype SDL_WindowEventID =
  SDL_WINDOWEVENT_CLOSE | SDL_WINDOWEVENT_RESIZED | SDL_WINDOWEVENT_OTHER nat

text \<open>
  \<^verbatim>\<open>SDL_Event\<close> is a union tagged by \<open>type\<close>; the program reads \<^verbatim>\<open>event.key.keysym.sym\<close>
  and \<^verbatim>\<open>event.window.*\<close> only behind a test of the tag, so the members are kept side by
  side.
\<close>

record SDL_Event =
  type :: SDL_EventType
  key_keysym_sym :: SDL_Keycode
  window_event :: SDL_WindowEventID
  window_windowID :: "32 word"
  motion_xrel :: int
  motion_yrel :: int
  wheel_y :: int

subsection \<open>tinyobjloader\<close>

record index_t =
  vertex_index :: "32 word"
  normal_index :: "32 word"
  texcoord_index :: "32 word"

record mesh_t =
  indices :: "index_t list"

record shape_t =
  name :: string
  mesh :: mesh_t

record 'f attrib_t =
  vertices :: "'f list"

text \<open>What \<^verbatim>\<open>tinyobj::LoadObj\<close> returns and writes through its out-parameters.\<close>

record 'f LoadObj_result =
  ret :: bool
  warn :: string
  err :: string
  attrib :: "'f attrib_t"
  shapes :: "shape_t list"

subsection \<open>OSPRay and OpenGL\<close>

datatype OSPError = OSP_NO_ERROR | OSP_ERROR nat

datatype OSPDataType = OSP_FLOAT3 | OSP_INT3

datatype OSPFrameBufferFormat = OSP_FB_NONE | OSP_FB_RGBA8 | OSP_FB_SRGBA | OSP_FB_RGBA32F

datatype 'f array = FloatArray "'f list" | IntArray "32 word list"

text \<open>The OSPRay objects, named by the variable of \<^verbatim>\<open>run_app\<close> that holds each.\<close>

datatype handle = verts_data | indices_data | geom | world | osp_camera | renderer | osp_fb

text \<open>The pointer \<^verbatim>\<open>fb\<close>: the mapping of a frame buffer.\<close>

datatype pixels = Mapped handle

datatype GLenum = GL_TEXTURE_2D | GL_RGBA8 | GL_RGBA | GL_UNSIGNED_BYTE

datatype ogl_LoadStatus = ogl_LOAD_FAILED | ogl_LOAD_SUCCEEDED

type_synonym 'f vec3 = "'f \<times> 'f \<times> 'f"

subsection \<open>Calls into the libraries\<close>

text \<open>
  One constructor per library function the program calls, grouped by library, with the
  arguments the properties below speak about. \<open>ArcballCamera_mouse\<close> carries the time step as the
  real number the source literal denotes.
\<close>

datatype sdl_call =
    SDL_Init
  | SDL_GL_SetAttribute string
  | SDL_CreateWindow string nat nat
  | SDL_GL_CreateContext
  | SDL_GL_SetSwapInterval int
  | SDL_GL_MakeCurrent
  | SDL_GL_SwapWindow
  | SDL_GL_DeleteContext
  | SDL_DestroyWindow
  | SDL_Quit

datatype gl_call =
    ogl_LoadFunctions
  | glGenTextures
  | glBindTexture GLenum
  | glTexStorage2D GLenum GLenum nat nat
  | glTexParameteri
  | glCreateVertexArrays
  | glBindVertexArray
  | glClearColor
  | glDisable
  | glViewport
  | glTexSubImage2D GLenum nat nat GLenum GLenum pixels
  | glClear
  | glUseProgram
  | glDrawArrays
  | Shader_new

datatype imgui_call =
    ImGui_CreateContext
  | ImGui_StyleColorsDark
  | ImGui_ImplSDL2_InitForOpenGL
  | ImGui_ImplOpenGL3_Init
  | ImGui_ImplSDL2_ProcessEvent SDL_Event
  | ImGui_ImplOpenGL3_NewFrame
  | ImGui_ImplSDL2_NewFrame
  | ImGui_NewFrame
  | ImGui_Begin string
  | ImGui_Text
  | ImGui_End
  | ImGui_Render
  | ImGui_ImplOpenGL3_RenderDrawData
  | ImGui_ImplOpenGL3_Shutdown
  | ImGui_ImplSDL2_Shutdown
  | ImGui_DestroyContext

datatype 'f osp_call =
    ospInit
  | ospNewData handle nat OSPDataType "'f array"
  | ospCommit handle
  | ospNewGeometry string
  | ospSetObject handle string handle
  | ospNewModel
  | ospAddGeometry handle handle
  | ospNewCamera string
  | ospSet1f handle string
  | ospSet3fv handle string "'f vec3"
  | ospNewRenderer string
  | ospNewFrameBuffer nat nat OSPFrameBufferFormat
  | ospFrameBufferClear handle
  | ospRenderFrame handle handle
  | ospMapFrameBuffer handle
  | ospUnmapFrameBuffer pixels handle

datatype 'f api_call =
    SDL sdl_call
  | GL gl_call
  | ImGui imgui_call
  | OSP "'f osp_call"
  | ArcballCamera_new
  | ArcballCamera_mouse SDL_Event real
  | tinyobj_LoadObj string

subsection \<open>What the process does to the outside\<close>

record 'f effects =
  cout :: string
  cerr :: string
  calls :: "'f api_call list"

definition no_effects :: "'f effects" where
  "no_effects = \<lparr>cout = [], cerr = [], calls = []\<rparr>"

definition put_cout :: "string \<Rightarrow> 'f effects \<Rightarrow> 'f effects" where
  "put_cout s w = w\<lparr>cout := cout w @ s\<rparr>"

definition put_cerr :: "string \<Rightarrow> 'f effects \<Rightarrow> 'f effects" where
  "put_cerr s w = w\<lparr>cerr := cerr w @ s\<rparr>"

definition call :: "'f api_call list \<Rightarrow> 'f effects \<Rightarrow> 'f effects" where
  "call cs w = w\<lparr>calls := calls w @ cs\<rparr>"

text \<open>How a run ends. \<^verbatim>\<open>return n\<close> from \<^verbatim>\<open>main\<close> and \<^verbatim>\<open>std::exit(n)\<close> are \<open>Exit n\<close>.\<close>

datatype outcome = Exit int | Uncaught_runtime_error string | Undefined_behaviour

subsection \<open>The environment\<close>

text \<open>
  The answers of the libraries, and the behaviour of the two stateful collaborators
  whose code is not part of \<^verbatim>\<open>main.cpp\<close>: the UI overlay (state \<open>'ui\<close>, read through
  \<^verbatim>\<open>io.WantCaptureKeyboard\<close> and \<^verbatim>\<open>io.WantCaptureMouse\<close>) and the arcball camera (state
  \<open>'cam\<close>). \<open>pending_events\<close> lists, for each iteration of the main loop, the events
  that \<^verbatim>\<open>SDL_PollEvent\<close> delivers during that iteration.
\<close>

record ('ui, 'cam, 'f) env =
  SDL_Init_result :: int
  SDL_GetError :: string
  ogl_LoadFunctions_result :: ogl_LoadStatus
  LoadObj :: "string \<Rightarrow> 'f LoadObj_result"
  ospInit_result :: OSPError
  SDL_GetWindowID :: "32 word"
  pending_events :: "SDL_Event list list"
  GetIO :: 'ui
  ProcessEvent :: "'ui \<Rightarrow> SDL_Event \<Rightarrow> 'ui"
  NewFrame :: "'ui \<Rightarrow> 'ui"
  WantCaptureKeyboard :: "'ui \<Rightarrow> bool"
  WantCaptureMouse :: "'ui \<Rightarrow> bool"
  ArcballCamera :: 'cam
  mouse :: "'cam \<Rightarrow> SDL_Event \<Rightarrow> real \<Rightarrow> 'cam"
  eye_pos :: "'cam \<Rightarrow> 'f vec3"
  eye_dir :: "'cam \<Rightarrow> 'f vec3"
  up_dir :: "'cam \<Rightarrow> 'f vec3"

section \<open>The main loop of \<^verbatim>\<open>run_app\<close>\<close>

text \<open>The variables of \<^verbatim>\<open>run_app\<close> that the loop reads and writes, and the effects so far.\<close>

record ('ui, 'cam, 'f) app =
  done_flag :: bool
  io :: 'ui
  camera :: 'cam
  cam_pos :: "'f vec3"
  cam_dir :: "'f vec3"
  cam_up :: "'f vec3"
  fx :: "'f effects"

definition app_call :: "'f api_call list \<Rightarrow> ('ui, 'cam, 'f) app \<Rightarrow> ('ui, 'cam, 'f) app" where
  "app_call cs st = st\<lparr>fx := call cs (fx st)\<rparr>"

text \<open>The body of \<^verbatim>\<open>while (SDL_PollEvent(&event))\<close>, for one event.\<close>

definition handle_event ::
  "('ui, 'cam, 'f) env \<Rightarrow> SDL_Event \<Rightarrow> ('ui, 'cam, 'f) app \<Rightarrow> ('ui, 'cam, 'f) app" where
  "handle_event env event st0 =
    (let st = app_call [ImGui (ImGui_ImplSDL2_ProcessEvent event)]
                (st0\<lparr>io := ProcessEvent env (io st0) event\<rparr>);
         st = (if type event = SDL_QUIT then st\<lparr>done_flag := True\<rparr> else st);
         st = (if \<not> WantCaptureKeyboard env (io st) \<and> type event = SDL_KEYDOWN
                  \<and> key_keysym_sym event = SDLK_ESCAPE
               then st\<lparr>done_flag := True\<rparr> else st);
         st = (if type event = SDL_WINDOWEVENT \<and> window_event event = SDL_WINDOWEVENT_CLOSE
                  \<and> window_windowID event = SDL_GetWindowID env
               then st\<lparr>done_flag := True\<rparr> else st);
         st = (if \<not> WantCaptureMouse env (io st)
                  \<and> (type event = SDL_MOUSEMOTION \<or> type event = SDL_MOUSEWHEEL)
               then app_call [ArcballCamera_mouse event 0.016]
                      (st\<lparr>camera := mouse env (camera st) event 0.016\<rparr>)
               else st)
     in st)"

text \<open>The inner loop: every event pending in this iteration, in order.\<close>

fun poll_events ::
  "('ui, 'cam, 'f) env \<Rightarrow> SDL_Event list \<Rightarrow> ('ui, 'cam, 'f) app \<Rightarrow> ('ui, 'cam, 'f) app" where
  "poll_events env [] st = st"
| "poll_events env (event # events) st = poll_events env events (handle_event env event st)"

text \<open>
  The rest of the loop body. First the frame of the UI overlay with its debug panel,
  then the camera vectors are read and pushed to OSPRay, the frame is rendered, the
  frame buffer is mapped, copied into the texture and unmapped, and the texture, the
  overlay and the window are drawn.
\<close>

definition overlay_calls :: "'f api_call list" where
  "overlay_calls =
     [ImGui ImGui_ImplOpenGL3_NewFrame, ImGui ImGui_ImplSDL2_NewFrame, ImGui ImGui_NewFrame,
      ImGui (ImGui_Begin ''Debug Panel''), ImGui ImGui_Text, ImGui ImGui_End,
      ImGui ImGui_Render, GL glViewport]"

definition render_calls :: "'f vec3 \<Rightarrow> 'f vec3 \<Rightarrow> 'f vec3 \<Rightarrow> 'f api_call list" where
  "render_calls pos dir up =
     [OSP (ospSet3fv osp_camera ''pos'' pos),
      OSP (ospSet3fv osp_camera ''dir'' dir),
      OSP (ospSet3fv osp_camera ''up'' up),
      OSP (ospCommit osp_camera),
      OSP (ospSetObject renderer ''camera'' osp_camera),
      OSP (ospCommit renderer),
      OSP (ospFrameBufferClear osp_fb),
      OSP (ospRenderFrame osp_fb renderer),
      OSP (ospMapFrameBuffer osp_fb),
      GL (glTexSubImage2D GL_TEXTURE_2D 1280 720 GL_RGBA GL_UNSIGNED_BYTE (Mapped osp_fb)),
      OSP (ospUnmapFrameBuffer (Mapped osp_fb) osp_fb),
      GL glClear, GL glUseProgram, GL glDrawArrays,
      ImGui ImGui_ImplOpenGL3_RenderDrawData,
      SDL SDL_GL_SwapWindow]"

definition present_frame ::
  "('ui, 'cam, 'f) env \<Rightarrow> ('ui, 'cam, 'f) app \<Rightarrow> ('ui, 'cam, 'f) app" where
  "present_frame env st0 =
    (let st = app_call overlay_calls (st0\<lparr>io := NewFrame env (io st0)\<rparr>);
         st = st\<lparr>cam_pos := eye_pos env (camera st),
                 cam_dir := eye_dir env (camera st),
                 cam_up := up_dir env (camera st)\<rparr>;
         st = app_call (render_calls (cam_pos st) (cam_dir st) (cam_up st)) st
     in st)"

definition loop_body ::
  "('ui, 'cam, 'f) env \<Rightarrow> SDL_Event list \<Rightarrow> ('ui, 'cam, 'f) app \<Rightarrow> ('ui, 'cam, 'f) app" where
  "loop_body env events st = present_frame env (poll_events env events st)"

text \<open>
  \<^verbatim>\<open>while (!done) { ... }\<close>. The loop runs for as long as no event ends it, so the model
  runs it over the iterations for which events are given: the result still has
  \<open>done_flag\<close> false when these are used up with the loop running.
\<close>

fun main_loop ::
  "('ui, 'cam, 'f) env \<Rightarrow> SDL_Event list list \<Rightarrow> ('ui, 'cam, 'f) app \<Rightarrow> ('ui, 'cam, 'f) app" where
  "main_loop env [] st = st"
| "main_loop env (events # rest) st =
     (if done_flag st then st else main_loop env rest (loop_body env events st))"

section \<open>Loading the model and building the scene\<close>

text \<open>\<^verbatim>\<open>operator<<\<close> on a \<^verbatim>\<open>size_t\<close>: decimal digits.\<close>

fun decimal :: "nat \<Rightarrow> string" where
  "decimal n =
     (if n < 10 then [''0123456789'' ! n]
      else decimal (n div 10) @ [''0123456789'' ! (n mod 10)])"

text \<open>
  The two nested loops over the shapes: one line on standard output per shape, and the
  vertex index of every index record pushed onto \<^verbatim>\<open>indices\<close>.
\<close>

fun collect_shapes ::
  "shape_t list \<Rightarrow> 32 word list \<times> 'f effects \<Rightarrow> 32 word list \<times> 'f effects" where
  "collect_shapes [] acc = acc"
| "collect_shapes (s # ss) (idx, w) =
     collect_shapes ss
       (foldl (\<lambda>a i. a @ [vertex_index i]) idx (indices (mesh s)),
        put_cout (''Loading shape '' @ name s @ '', has ''
                  @ decimal (length (indices (mesh s)) div 3) @ '' triangles\<newline>'') w)"

text \<open>
  Everything between a successful \<^verbatim>\<open>ospInit\<close> and the loop: the two data arrays, the
  geometry, the model, the camera, the renderer, the frame buffer, and the texture and
  shader of the blit.
\<close>

definition scene_setup ::
  "'f list \<Rightarrow> 32 word list \<Rightarrow> 'f vec3 \<Rightarrow> 'f vec3 \<Rightarrow> 'f vec3 \<Rightarrow> 'f api_call list" where
  "scene_setup vs idx pos dir up =
    [OSP (ospNewData verts_data (length vs div 3) OSP_FLOAT3 (FloatArray vs)),
     OSP (ospCommit verts_data),
     OSP (ospNewData indices_data (length idx div 3) OSP_INT3 (IntArray idx)),
     OSP (ospCommit indices_data),
     OSP (ospNewGeometry ''triangles''),
     OSP (ospSetObject geom ''vertex'' verts_data),
     OSP (ospSetObject geom ''index'' indices_data),
     OSP (ospCommit geom),
     OSP ospNewModel,
     OSP (ospAddGeometry world geom),
     OSP (ospCommit world),
     OSP (ospNewCamera ''perspective''),
     OSP (ospSet1f osp_camera ''fovy''),
     OSP (ospSet1f osp_camera ''aspect''),
     OSP (ospSet3fv osp_camera ''pos'' pos),
     OSP (ospSet3fv osp_camera ''dir'' dir),
     OSP (ospSet3fv osp_camera ''up'' up),
     OSP (ospCommit osp_camera),
     OSP (ospNewRenderer ''raycast_Ns''),
     OSP (ospSetObject renderer ''model'' world),
     OSP (ospSetObject renderer ''camera'' osp_camera),
     OSP (ospCommit renderer),
     OSP (ospNewFrameBuffer 1280 720 OSP_FB_SRGBA),
     GL Shader_new,
     GL glGenTextures,
     GL (glBindTexture GL_TEXTURE_2D),
     GL (glTexStorage2D GL_TEXTURE_2D GL_RGBA8 1280 720),
     GL glTexParameteri, GL glTexParameteri, GL glTexParameteri, GL glTexParameteri,
     GL glCreateVertexArrays,
     GL glBindVertexArray,
     GL glClearColor,
     GL glDisable]"

section \<open>\<^verbatim>\<open>run_app\<close> and \<^verbatim>\<open>main\<close>\<close>

text \<open>
  \<^verbatim>\<open>run_app\<close> returns to \<^verbatim>\<open>main\<close>, or ends the process itself (\<^verbatim>\<open>std::exit\<close>, or the
  exception that nothing catches), or is still in its loop when the events given are
  used up.
\<close>

datatype run_result = Returned | Exited outcome | Running

definition run_app ::
  "('ui, 'cam, 'f) env \<Rightarrow> string list \<Rightarrow> 'f effects \<Rightarrow> run_result \<times> 'f effects" where
  "run_app env argv w0 =
    (case argv of
       _ # path # _ \<Rightarrow>
        (let w = call [ArcballCamera_new, tinyobj_LoadObj path] w0;
             r = LoadObj env path;
             w = (if warn r \<noteq> [] then put_cout (''Warning loading model: '' @ warn r @ ''\<newline>'') w
                  else w)
         in if err r \<noteq> [] then
              (Exited (Exit 1), put_cerr (''Error loading model: '' @ err r @ ''\<newline>'') w)
            else if \<not> ret r then
              (Exited (Exit 1),
               put_cerr (''Failed to load OBJ model '' @ [CHR 0x27] @ path @ [CHR 0x27]
                         @ '', aborting\<newline>'') w)
            else
              (let (idx, w) = collect_shapes (shapes r) ([], w);
                   w = call [OSP ospInit] w
               in if ospInit_result env \<noteq> OSP_NO_ERROR then
                    (Exited (Uncaught_runtime_error ''Failed to init OSPRay''),
                     put_cout ''Failed to init OSPRay\<newline>'' w)
                  else
                    (let cam = ArcballCamera env;
                         st = \<lparr>done_flag = False, io = GetIO env, camera = cam,
                               cam_pos = eye_pos env cam, cam_dir = eye_dir env cam,
                               cam_up = up_dir env cam,
                               fx = call (scene_setup (vertices (attrib r)) idx
                                            (eye_pos env cam) (eye_dir env cam) (up_dir env cam)) w\<rparr>;
                         st = main_loop env (pending_events env) st
                     in (if done_flag st then Returned else Running, fx st))))
     | _ \<Rightarrow> (Exited Undefined_behaviour, w0))"

text \<open>
  The calls of \<^verbatim>\<open>main\<close> around \<^verbatim>\<open>run_app\<close>: the context attributes, the window and its
  OpenGL context up to the loading of the OpenGL functions; the set-up of the UI
  overlay; the teardown.
\<close>

definition window_calls :: "'f api_call list" where
  "window_calls =
     [SDL (SDL_GL_SetAttribute ''SDL_GL_CONTEXT_FLAGS''),
      SDL (SDL_GL_SetAttribute ''SDL_GL_CONTEXT_PROFILE_MASK''),
      SDL (SDL_GL_SetAttribute ''SDL_GL_CONTEXT_MAJOR_VERSION''),
      SDL (SDL_GL_SetAttribute ''SDL_GL_CONTEXT_MINOR_VERSION''),
      SDL (SDL_GL_SetAttribute ''SDL_GL_CONTEXT_FLAGS''),
      SDL (SDL_GL_SetAttribute ''SDL_GL_DOUBLEBUFFER''),
      SDL (SDL_GL_SetAttribute ''SDL_GL_DEPTH_SIZE''),
      SDL (SDL_GL_SetAttribute ''SDL_GL_STENCIL_SIZE''),
      SDL (SDL_CreateWindow ''rtobj'' 1280 720),
      SDL SDL_GL_CreateContext,
      SDL (SDL_GL_SetSwapInterval 1),
      SDL SDL_GL_MakeCurrent,
      GL ogl_LoadFunctions]"

definition imgui_calls :: "'f api_call list" where
  "imgui_calls =
     [ImGui ImGui_CreateContext, ImGui ImGui_StyleColorsDark,
      ImGui ImGui_ImplSDL2_InitForOpenGL, ImGui ImGui_ImplOpenGL3_Init]"

definition shutdown_calls :: "'f api_call list" where
  "shutdown_calls =
     [ImGui ImGui_ImplOpenGL3_Shutdown, ImGui ImGui_ImplSDL2_Shutdown,
      ImGui ImGui_DestroyContext, SDL SDL_GL_DeleteContext,
      SDL SDL_DestroyWindow, SDL SDL_Quit]"

text \<open>
  \<^verbatim>\<open>main\<close>, with \<open>argc = length argv\<close>. The result is \<open>None\<close> while the loop is running.
  With an empty \<open>argv\<close> the usage line would print the null pointer \<^verbatim>\<open>argv[0]\<close>.
\<close>

definition main ::
  "('ui, 'cam, 'f) env \<Rightarrow> string list \<Rightarrow> outcome option \<times> 'f effects" where
  "main env argv =
    (if length argv < 2 then
       (case argv of
          [] \<Rightarrow> (Some Undefined_behaviour, put_cout ''Usage: '' no_effects)
        | prog # _ \<Rightarrow>
            (Some (Exit 1), put_cout (''Usage: '' @ prog @ '' <obj file>\<newline>'') no_effects))
     else
       (let w = call [SDL SDL_Init] no_effects
        in if SDL_Init_result env \<noteq> 0 then
             (Some (Exit (- 1)),
              put_cerr (''Failed to init SDL: '' @ SDL_GetError env @ ''\<newline>'') w)
           else
             (let w = call window_calls w
              in if ogl_LoadFunctions_result env = ogl_LOAD_FAILED then
                   (Some (Exit 1), put_cerr ''Failed to initialize OpenGL\<newline>'' w)
                 else
                   (case run_app env argv (call imgui_calls w) of
                      (Exited oc, w) \<Rightarrow> (Some oc, w)
                    | (Running, w) \<Rightarrow> (None, w)
                    | (Returned, w) \<Rightarrow> (Some (Exit 0), call shutdown_calls w)))))"


subsection \<open>The process around \<^verbatim>\<open>main\<close>\<close>






section \<open>The render call of the OptiX backend\<close>

text \<open>
  \<^verbatim>\<open>render_optix.h\<close> declares \<^verbatim>\<open>RenderOptiX\<close> with its buffer \<^verbatim>\<open>launch_params\<close>, its
  counter \<^verbatim>\<open>frame_id\<close> (initially 0) and the methods \<^verbatim>\<open>render\<close> and
  \<^verbatim>\<open>update_view_parameters\<close>; the bodies are in a file that is not part of the sources
  at hand. The record keeps the camera part of the launch parameters and counts how
  often it has been uploaded.
\<close>

record 'f view_parameters =
  view_pos :: "'f vec3"
  view_dir :: "'f vec3"
  view_up :: "'f vec3"
  view_fovy :: 'f

record 'f RenderOptiX =
  launch_params :: "'f view_parameters option"
  uploads :: nat
  frame_id :: "32 word"

text \<open>
  Modelled from the spec: the body of \<^verbatim>\<open>RenderOptiX::update_view_parameters\<close> is missing.
  It uploads the camera-dependent launch parameters computed from position, direction,
  up vector and field of view.
\<close>

definition update_view_parameters ::
  "'f vec3 \<Rightarrow> 'f vec3 \<Rightarrow> 'f vec3 \<Rightarrow> 'f \<Rightarrow> 'f RenderOptiX \<Rightarrow> 'f RenderOptiX" where
  "update_view_parameters pos dir up fovy r =
     r\<lparr>launch_params := Some \<lparr>view_pos = pos, view_dir = dir, view_up = up, view_fovy = fovy\<rparr>,
       uploads := Suc (uploads r)\<rparr>"

text \<open>
  Modelled from the spec: the body of \<^verbatim>\<open>RenderOptiX::render\<close> is missing. The
  specification of the render backend says that \<^verbatim>\<open>render\<close> updates the camera-dependent
  launch parameters only when \<^verbatim>\<open>camera_changed\<close> is true and advances an internal frame
  accumulation counter. The wall-clock time it returns is not modelled.
\<close>

definition render ::
  "'f vec3 \<Rightarrow> 'f vec3 \<Rightarrow> 'f vec3 \<Rightarrow> 'f \<Rightarrow> bool \<Rightarrow> 'f RenderOptiX \<Rightarrow> 'f RenderOptiX" where
  "render pos dir up fovy camera_changed r =
     (let r = (if camera_changed then update_view_parameters pos dir up fovy r else r)
      in r\<lparr>frame_id := frame_id r + 1\<rparr>)"

section \<open>Notions for stating the properties\<close>

text \<open>
  The calls that a step adds to the record of calls.
\<close>

definition new_calls :: "('ui, 'cam, 'f) app \<Rightarrow> ('ui, 'cam, 'f) app \<Rightarrow> 'f api_call list" where
  "new_calls st st' = drop (length (calls (fx st))) (calls (fx st'))"

text \<open>
  The three events that end the loop, with the state of the UI overlay after the event
  has been forwarded to it: a quit signal, an escape key press while the overlay does not
  capture the keyboard, a close signal for the window of the application.
\<close>

definition ends_loop :: "('ui, 'cam, 'f) env \<Rightarrow> 'ui \<Rightarrow> SDL_Event \<Rightarrow> bool" where
  "ends_loop env ui e \<longleftrightarrow>
     type e = SDL_QUIT
     \<or> (type e = SDL_KEYDOWN \<and> key_keysym_sym e = SDLK_ESCAPE \<and> \<not> WantCaptureKeyboard env ui)
     \<or> (type e = SDL_WINDOWEVENT \<and> window_event e = SDL_WINDOWEVENT_CLOSE
         \<and> window_windowID e = SDL_GetWindowID env)"

text \<open>
  An event goes to the camera: pointer motion or scroll while the overlay does not
  capture the mouse.
\<close>

definition to_camera :: "('ui, 'cam, 'f) env \<Rightarrow> 'ui \<Rightarrow> SDL_Event \<Rightarrow> bool" where
  "to_camera env ui e \<longleftrightarrow>
     (type e = SDL_MOUSEMOTION \<or> type e = SDL_MOUSEWHEEL) \<and> \<not> WantCaptureMouse env ui"

fun is_ui_forward :: "'f api_call \<Rightarrow> bool" where
  "is_ui_forward (ImGui (ImGui_ImplSDL2_ProcessEvent e)) = True"
| "is_ui_forward _ = False"

text \<open>
  The calls that the event loop makes for the events it polls.
\<close>

fun input_call :: "'f api_call \<Rightarrow> bool" where
  "input_call (ImGui (ImGui_ImplSDL2_ProcessEvent e)) = True"
| "input_call (ArcballCamera_mouse e dt) = (dt = 0.016)"
| "input_call _ = False"

text \<open>
  The frame buffer is mapped or not. A monitor for its use: mapping needs it unmapped;
  unmapping and the read of the texture upload need it mapped; clearing and rendering
  the frame, drawing the quad and the overlay, and swapping the window need it
  unmapped. \<open>fb_run\<close> is \<open>None\<close> as soon as one call breaks this.
\<close>

fun fb_step :: "bool \<Rightarrow> 'f api_call \<Rightarrow> bool option" where
  "fb_step m (OSP (ospMapFrameBuffer f)) = (if m then None else Some True)"
| "fb_step m (OSP (ospUnmapFrameBuffer p f)) = (if m then Some False else None)"
| "fb_step m (GL (glTexSubImage2D t w h fmt ty p)) = (if m then Some m else None)"
| "fb_step m (OSP (ospFrameBufferClear f)) = (if m then None else Some m)"
| "fb_step m (OSP (ospRenderFrame f r)) = (if m then None else Some m)"
| "fb_step m (ImGui ImGui_ImplOpenGL3_RenderDrawData) = (if m then None else Some m)"
| "fb_step m (GL glDrawArrays) = (if m then None else Some m)"
| "fb_step m (SDL SDL_GL_SwapWindow) = (if m then None else Some m)"
| "fb_step m _ = Some m"

fun fb_run :: "bool \<Rightarrow> 'f api_call list \<Rightarrow> bool option" where
  "fb_run m [] = Some m"
| "fb_run m (c # cs) = (case fb_step m c of None \<Rightarrow> None | Some m' \<Rightarrow> fb_run m' cs)"

fun fb_access :: "'f api_call \<Rightarrow> bool" where
  "fb_access (OSP (ospMapFrameBuffer f)) = True"
| "fb_access (OSP (ospUnmapFrameBuffer p f)) = True"
| "fb_access (GL (glTexSubImage2D t w h f ty p)) = True"
| "fb_access _ = False"

text \<open>
  Calls that allocate the window, the frame buffer or the texture storage; the three
  initialisations that can fail; the render call; the data arrays of the scene.
\<close>

fun is_allocation :: "'f api_call \<Rightarrow> bool" where
  "is_allocation (SDL (SDL_CreateWindow t w h)) = True"
| "is_allocation (OSP (ospNewFrameBuffer w h f)) = True"
| "is_allocation (GL (glTexStorage2D t f w h)) = True"
| "is_allocation _ = False"


fun is_render :: "'f api_call \<Rightarrow> bool" where
  "is_render (OSP (ospRenderFrame f r)) = True"
| "is_render _ = False"

fun is_ospNewData :: "'f api_call \<Rightarrow> bool" where
  "is_ospNewData (OSP (ospNewData h n t a)) = True"
| "is_ospNewData _ = False"

text \<open>
  The texture upload and the render call use the one frame buffer at its fixed size;
  the camera gets the fixed time step.
\<close>

fun fixed_size :: "'f api_call \<Rightarrow> bool" where
  "fixed_size (GL (glTexSubImage2D t w h f ty p)) =
     (w = 1280 \<and> h = 720 \<and> f = GL_RGBA \<and> ty = GL_UNSIGNED_BYTE \<and> p = Mapped osp_fb)"
| "fixed_size (OSP (ospRenderFrame f r)) = (f = osp_fb)"
| "fixed_size _ = True"

fun fixed_dt :: "'f api_call \<Rightarrow> bool" where
  "fixed_dt (ArcballCamera_mouse e dt) = (dt = 0.016)"
| "fixed_dt _ = True"

text \<open>
  The shape of the record of calls: what the loop adds, iteration by iteration, and what
  a run of the whole program leaves, according to where it ends.
\<close>

inductive loop_trace :: "'f api_call list \<Rightarrow> bool" where
  loop_end: "loop_trace []"
| loop_iteration:
    "list_all input_call new \<Longrightarrow> loop_trace rest \<Longrightarrow>
     loop_trace (new @ overlay_calls @ render_calls p d u @ rest)"

definition startup_calls :: "string \<Rightarrow> 'f api_call list" where
  "startup_calls path =
     SDL SDL_Init # window_calls @ imgui_calls @ [ArcballCamera_new, tinyobj_LoadObj path]"

inductive program_trace :: "'f api_call list \<Rightarrow> bool" where
  trace_usage: "program_trace []"
| trace_sdl: "program_trace [SDL SDL_Init]"
| trace_window: "program_trace (SDL SDL_Init # window_calls)"
| trace_load: "program_trace (startup_calls path)"
| trace_osp: "program_trace (startup_calls path @ [OSP ospInit])"
| trace_loop:
    "loop_trace t \<Longrightarrow>
     program_trace (startup_calls path @ OSP ospInit # scene_setup vs idx p d u @ t)"
| trace_return:
    "loop_trace t \<Longrightarrow>
     program_trace (startup_calls path @ OSP ospInit # scene_setup vs idx p d u @ t
                    @ shutdown_calls)"

text \<open>
  The effects when the model is loaded and a warning, if any, is printed; and when
  \<^verbatim>\<open>run_app\<close> is entered.
\<close>

definition after_load :: "('ui, 'cam, 'f) env \<Rightarrow> string \<Rightarrow> 'f effects \<Rightarrow> 'f effects" where
  "after_load env path w0 =
     (let w = call [ArcballCamera_new, tinyobj_LoadObj path] w0
      in if warn (LoadObj env path) \<noteq> []
         then put_cout (''Warning loading model: '' @ warn (LoadObj env path) @ ''\<newline>'') w
         else w)"

definition started :: "'f effects" where
  "started = call imgui_calls (call window_calls (call [SDL SDL_Init] no_effects))"

section \<open>A concrete run\<close>

text \<open>
  A quad of two triangles in \<^verbatim>\<open>quad.obj\<close>, loaded with a warning; any other path cannot be
  opened. The overlay never captures input here (its state is the value of both capture
  flags), the camera state is the accumulated horizontal pointer motion. In the first
  iteration the window is resized and the pointer dragged, in the second escape is
  pressed. Three variants have SDL, the OpenGL loader or OSPRay fail to initialise.
\<close>

definition quad_obj :: "int LoadObj_result" where
  "quad_obj =
     \<lparr>ret = True, warn = ''no material file'', err = [],
      attrib = \<lparr>vertices = [0, 0, 0, 1, 0, 0, 0, 1, 0, 1, 1, 0]\<rparr>,
      shapes = [\<lparr>name = ''quad'',
                 mesh = \<lparr>indices = map (\<lambda>i. \<lparr>vertex_index = i, normal_index = - 1, texcoord_index = - 1\<rparr>)
                                     [0, 1, 2, 2, 1, 3]\<rparr>\<rparr>]\<rparr>"

definition no_obj :: "string \<Rightarrow> int LoadObj_result" where
  "no_obj path =
     \<lparr>ret = False, warn = [], err = ''Cannot open file ['' @ path @ '']'',
      attrib = \<lparr>vertices = []\<rparr>, shapes = []\<rparr>"

definition blank_event :: "SDL_EventType \<Rightarrow> SDL_Event" where
  "blank_event t = \<lparr>type = t, key_keysym_sym = SDLK_OTHER 0, window_event = SDL_WINDOWEVENT_OTHER 0,
              window_windowID = 1, motion_xrel = 0, motion_yrel = 0, wheel_y = 0\<rparr>"

definition escape_down :: SDL_Event where
  "escape_down = (blank_event SDL_KEYDOWN)\<lparr>key_keysym_sym := SDLK_ESCAPE\<rparr>"

definition drag :: SDL_Event where
  "drag = (blank_event SDL_MOUSEMOTION)\<lparr>motion_xrel := 5, motion_yrel := - 2\<rparr>"

definition resized :: SDL_Event where
  "resized = (blank_event SDL_WINDOWEVENT)\<lparr>window_event := SDL_WINDOWEVENT_RESIZED\<rparr>"

definition demo_env :: "(bool, int, int) env" where
  "demo_env =
     \<lparr>SDL_Init_result = 0, SDL_GetError = [], ogl_LoadFunctions_result = ogl_LOAD_SUCCEEDED,
      LoadObj = (\<lambda>path. if path = ''quad.obj'' then quad_obj else no_obj path),
      ospInit_result = OSP_NO_ERROR, SDL_GetWindowID = 1,
      pending_events = [resized, drag] # [escape_down] # [],
      GetIO = False, ProcessEvent = (\<lambda>ui e. ui), NewFrame = (\<lambda>ui. ui),
      WantCaptureKeyboard = (\<lambda>ui. ui), WantCaptureMouse = (\<lambda>ui. ui),
      ArcballCamera = 0, mouse = (\<lambda>cam e dt. cam + motion_xrel e),
      eye_pos = (\<lambda>cam. (cam, 0, 100)), eye_dir = (\<lambda>cam. (0, 0, - 1)),
      up_dir = (\<lambda>cam. (0, 1, 0))\<rparr>"

definition silent_env :: "(bool, int, int) env" where
  "silent_env = demo_env\<lparr>LoadObj := (\<lambda>path. (no_obj path)\<lparr>err := []\<rparr>)\<rparr>"




definition demo_app :: "(bool, int, int) app" where
  "demo_app =
     \<lparr>done_flag = False, io = False, camera = 0, cam_pos = (0, 0, 100), cam_dir = (0, 0, - 1),
      cam_up = (0, 1, 0), fx = no_effects\<rparr>"

definition demo_argv :: "string list" where
  "demo_argv = [''rtobj'', ''quad.obj'']"

definition new_optix :: "int RenderOptiX" where
  "new_optix = \<lparr>launch_params = None, uploads = 0, frame_id = 0\<rparr>"

section \<open>Lemmas: the event loop\<close>

lemma handle_event_io: "io (handle_event env e st) = ProcessEvent env (io st) e"
  by (simp add: handle_event_def app_call_def Let_def)

lemma handle_event_done:
  "done_flag (handle_event env e st) \<longleftrightarrow> done_flag st \<or> ends_loop env (ProcessEvent env (io st) e) e"
  by (auto simp add: handle_event_def app_call_def Let_def ends_loop_def)

lemma handle_event_camera:
  "camera (handle_event env e st) =
     (if to_camera env (ProcessEvent env (io st) e) e then mouse env (camera st) e 0.016
      else camera st)"
  by (auto simp add: handle_event_def app_call_def Let_def to_camera_def)

lemma handle_event_calls:
  "calls (fx (handle_event env e st)) =
     calls (fx st) @ ImGui (ImGui_ImplSDL2_ProcessEvent e)
       # (if to_camera env (ProcessEvent env (io st) e) e then [ArcballCamera_mouse e 0.016] else [])"
  by (auto simp add: handle_event_def app_call_def call_def Let_def to_camera_def)

lemma handle_event_out:
  "cout (fx (handle_event env e st)) = cout (fx st) \<and> cerr (fx (handle_event env e st)) = cerr (fx st)"
  by (auto simp add: handle_event_def app_call_def call_def Let_def)

lemma poll_events_io: "io (poll_events env es st) = foldl (ProcessEvent env) (io st) es"
  by (induction es arbitrary: st) (simp_all add: handle_event_io)

lemma ex_less_Suc: "(\<exists>i<Suc n. Q i) \<longleftrightarrow> Q 0 \<or> (\<exists>i<n. Q (Suc i))"
  by (metis less_Suc_eq_0_disj)

lemma poll_events_done:
  "done_flag (poll_events env es st) \<longleftrightarrow>
     done_flag st \<or> (\<exists>i<length es. ends_loop env (foldl (ProcessEvent env) (io st) (take (Suc i) es)) (es ! i))"
proof (induction es arbitrary: st)
  case Nil
  show ?case by simp
next
  case (Cons e es)
  have split: "\<And>Q. (\<exists>i<Suc (length es). Q i) \<longleftrightarrow> Q 0 \<or> (\<exists>i<length es. Q (Suc i))"
    by (metis less_Suc_eq_0_disj)
  show ?case
    by (simp add: Cons.IH handle_event_done handle_event_io split disj_assoc)
qed

lemma present_frame_done: "done_flag (present_frame env st) = done_flag st"
  by (simp add: present_frame_def app_call_def Let_def)

lemma present_frame_calls:
  "calls (fx (present_frame env st)) = calls (fx st) @ overlay_calls
     @ render_calls (eye_pos env (camera st)) (eye_dir env (camera st)) (up_dir env (camera st))"
  by (simp add: present_frame_def app_call_def call_def Let_def)

lemma present_frame_out:
  "cout (fx (present_frame env st)) = cout (fx st) \<and> cerr (fx (present_frame env st)) = cerr (fx st)"
  by (simp add: present_frame_def app_call_def call_def Let_def)

lemma poll_events_calls:
  "\<exists>new. calls (fx (poll_events env es st)) = calls (fx st) @ new
     \<and> list_all input_call new
     \<and> filter is_ui_forward new = map (\<lambda>e. ImGui (ImGui_ImplSDL2_ProcessEvent e)) es"
proof (induction es arbitrary: st)
  case Nil
  show ?case by simp
next
  case (Cons e es)
  from Cons.IH [of "handle_event env e st"] obtain new where
    n: "calls (fx (poll_events env es (handle_event env e st))) = calls (fx (handle_event env e st)) @ new"
       "list_all input_call new"
       "filter is_ui_forward new = map (\<lambda>e. ImGui (ImGui_ImplSDL2_ProcessEvent e)) es"
    by blast
  show ?case
    by (rule exI [of _ "(ImGui (ImGui_ImplSDL2_ProcessEvent e)
       # (if to_camera env (ProcessEvent env (io st) e) e then [ArcballCamera_mouse e 0.016] else [])) @ new"])
       (simp add: n handle_event_calls)
qed

lemma poll_events_out:
  "cout (fx (poll_events env es st)) = cout (fx st) \<and> cerr (fx (poll_events env es st)) = cerr (fx st)"
  by (induction es arbitrary: st) (simp_all add: handle_event_out)

lemma loop_body_calls:
  "\<exists>new. calls (fx (loop_body env es st)) = calls (fx st) @ new @ overlay_calls
            @ render_calls (eye_pos env (camera (poll_events env es st)))
                (eye_dir env (camera (poll_events env es st)))
                (up_dir env (camera (poll_events env es st)))
     \<and> list_all input_call new
     \<and> filter is_ui_forward new = map (\<lambda>e. ImGui (ImGui_ImplSDL2_ProcessEvent e)) es"
proof -
  from poll_events_calls [of env es st] obtain new where
    n: "calls (fx (poll_events env es st)) = calls (fx st) @ new" "list_all input_call new"
       "filter is_ui_forward new = map (\<lambda>e. ImGui (ImGui_ImplSDL2_ProcessEvent e)) es"
    by blast
  show ?thesis
    by (rule exI [of _ new]) (simp add: loop_body_def present_frame_calls n)
qed

lemma loop_body_out:
  "cout (fx (loop_body env es st)) = cout (fx st) \<and> cerr (fx (loop_body env es st)) = cerr (fx st)"
  by (simp add: loop_body_def present_frame_out poll_events_out)

lemma main_loop_out:
  "cout (fx (main_loop env bs st)) = cout (fx st) \<and> cerr (fx (main_loop env bs st)) = cerr (fx st)"
  by (induction bs arbitrary: st) (simp_all add: loop_body_out)

lemma main_loop_trace:
  "\<exists>t. calls (fx (main_loop env bs st)) = calls (fx st) @ t \<and> loop_trace t"
proof (induction bs arbitrary: st)
  case Nil
  show ?case by (simp add: loop_end)
next
  case (Cons es bs)
  show ?case
  proof (cases "done_flag st")
    case True
    then show ?thesis by (simp add: loop_end)
  next
    case False
    from loop_body_calls [of env es st] obtain new p d u where
      n: "calls (fx (loop_body env es st)) = calls (fx st) @ new @ overlay_calls @ render_calls p d u"
         "list_all input_call new"
      by blast
    from Cons.IH [of "loop_body env es st"] obtain t where
      t: "calls (fx (main_loop env bs (loop_body env es st))) = calls (fx (loop_body env es st)) @ t"
         "loop_trace t"
      by blast
    have "loop_trace (new @ overlay_calls @ render_calls p d u @ t)"
      using n(2) t(2) by (rule loop_iteration)
    moreover have "calls (fx (main_loop env (es # bs) st))
        = calls (fx st) @ new @ overlay_calls @ render_calls p d u @ t"
      using False by (simp add: t(1) n(1))
    ultimately show ?thesis by blast
  qed
qed

section \<open>Lemmas: the monitor and the predicates on calls\<close>

lemma fb_run_append:
  "fb_run m (xs @ ys) = (case fb_run m xs of None \<Rightarrow> None | Some m' \<Rightarrow> fb_run m' ys)"
  by (induction xs arbitrary: m) (auto split: option.splits)

lemma fb_run_overlay: "fb_run m overlay_calls = Some m"
  by (simp add: overlay_calls_def)

lemma fb_run_render: "fb_run False (render_calls p d u) = Some False"
  by (simp add: render_calls_def)

lemma input_call_fb: "list_all input_call xs \<Longrightarrow> fb_run m xs = Some m"
proof (induction xs)
  case Nil
  show ?case by simp
next
  case (Cons c cs)
  then have "input_call c" by simp
  then have "fb_step m c = Some m"
    by (cases "(m, c)" rule: fb_step.cases) simp_all
  with Cons show ?case by simp
qed

lemma input_call_cases:
  assumes "input_call c"
  obtains e where "c = ImGui (ImGui_ImplSDL2_ProcessEvent e)" | e where "c = ArcballCamera_mouse e 0.016"
  using assms by (cases c rule: input_call.cases) simp_all

lemma input_call_props:
  assumes "input_call c"
  shows "\<not> is_allocation c" "fixed_size c" "fixed_dt c" "\<not> fb_access c" "\<not> is_render c"
    "\<not> is_ospNewData c"
  using assms by (auto elim!: input_call_cases)

lemma loop_trace_all:
  assumes "loop_trace t" and "\<And>c. input_call c \<Longrightarrow> P c" and "list_all P overlay_calls"
    and "\<And>p d u. list_all P (render_calls p d u)"
  shows "list_all P t"
  using assms(1)
proof induction
  case loop_end
  show ?case by simp
next
  case (loop_iteration new rest p d u)
  from loop_iteration(1) assms(2) have "list_all P new"
    by (simp add: list_all_iff)
  with loop_iteration(3) assms(3,4) show ?case by simp
qed

lemma loop_trace_filter:
  assumes "loop_trace t" and "\<And>c. input_call c \<Longrightarrow> \<not> Q c"
    and "list_all (\<lambda>c. \<not> Q c) overlay_calls"
    and "\<And>p d u. list_all (\<lambda>c. \<not> Q c) (render_calls p d u)"
  shows "filter Q t = []"
proof -
  have "list_all (\<lambda>c. \<not> Q c) t"
    using assms by (rule loop_trace_all)
  then show ?thesis by (simp add: list_all_iff filter_empty_conv)
qed

lemma loop_trace_fb: "loop_trace t \<Longrightarrow> fb_run False t = Some False"
proof (induction rule: loop_trace.induct)
  case loop_end
  show ?case by simp
next
  case (loop_iteration new rest p d u)
  then show ?case
    by (simp add: fb_run_append input_call_fb fb_run_overlay fb_run_render)
qed

lemma loop_trace_fixed_size: "loop_trace t \<Longrightarrow> list_all fixed_size t"
  by (erule loop_trace_all) (simp_all add: input_call_props overlay_calls_def render_calls_def)

lemma loop_trace_fixed_dt: "loop_trace t \<Longrightarrow> list_all fixed_dt t"
  by (erule loop_trace_all) (simp_all add: input_call_props overlay_calls_def render_calls_def)

lemma loop_trace_no_alloc: "loop_trace t \<Longrightarrow> filter is_allocation t = []"
  by (erule loop_trace_filter) (simp_all add: input_call_props overlay_calls_def render_calls_def)

lemma loop_trace_no_NewData: "loop_trace t \<Longrightarrow> filter is_ospNewData t = []"
  by (erule loop_trace_filter) (simp_all add: input_call_props overlay_calls_def render_calls_def)

lemma fixed_lists:
  "list_all fixed_size (window_calls :: 'f api_call list)"
  "list_all fixed_size (startup_calls path :: 'f api_call list)"
  "list_all fixed_size (shutdown_calls :: 'f api_call list)"
  "list_all fixed_size (scene_setup vs idx p d u)"
  "list_all fixed_dt (window_calls :: 'f api_call list)"
  "list_all fixed_dt (startup_calls path :: 'f api_call list)"
  "list_all fixed_dt (shutdown_calls :: 'f api_call list)"
  "list_all fixed_dt (scene_setup vs idx p d u)"
  by (simp_all add: window_calls_def startup_calls_def imgui_calls_def shutdown_calls_def
      scene_setup_def)

lemma fb_lists:
  "fb_run m (window_calls :: 'f api_call list) = Some m"
  "fb_run m (startup_calls path :: 'f api_call list) = Some m"
  "fb_run False (shutdown_calls :: 'f api_call list) = Some False"
  "fb_run m (scene_setup vs idx p d u) = Some m"
  by (simp_all add: window_calls_def startup_calls_def imgui_calls_def shutdown_calls_def
      scene_setup_def)

lemma alloc_lists:
  "filter is_allocation (window_calls :: 'f api_call list) = [SDL (SDL_CreateWindow ''rtobj'' 1280 720)]"
  "filter is_allocation (startup_calls path :: 'f api_call list) = [SDL (SDL_CreateWindow ''rtobj'' 1280 720)]"
  "filter is_allocation (shutdown_calls :: 'f api_call list) = []"
  "filter is_allocation (scene_setup vs idx p d u) =
     [OSP (ospNewFrameBuffer 1280 720 OSP_FB_SRGBA), GL (glTexStorage2D GL_TEXTURE_2D GL_RGBA8 1280 720)]"
  by (simp_all add: window_calls_def startup_calls_def imgui_calls_def shutdown_calls_def
      scene_setup_def)


lemma render_lists:
  "filter is_render (window_calls :: 'f api_call list) = []"
  "filter is_render (startup_calls path :: 'f api_call list) = []"
  by (simp_all add: window_calls_def startup_calls_def imgui_calls_def)

lemma program_trace_fixed_size: "program_trace t \<Longrightarrow> list_all fixed_size t"
  by (induction rule: program_trace.induct) (simp_all add: fixed_lists loop_trace_fixed_size)

lemma program_trace_fixed_dt: "program_trace t \<Longrightarrow> list_all fixed_dt t"
  by (induction rule: program_trace.induct) (simp_all add: fixed_lists loop_trace_fixed_dt)

lemma program_trace_fb: "program_trace t \<Longrightarrow> fb_run False t = Some False"
  by (induction rule: program_trace.induct) (simp_all add: fb_run_append fb_lists loop_trace_fb)

lemma program_trace_alloc:
  "program_trace t \<Longrightarrow>
   filter is_allocation t \<in>
     {[], [SDL (SDL_CreateWindow ''rtobj'' 1280 720)],
      [SDL (SDL_CreateWindow ''rtobj'' 1280 720), OSP (ospNewFrameBuffer 1280 720 OSP_FB_SRGBA),
       GL (glTexStorage2D GL_TEXTURE_2D GL_RGBA8 1280 720)]}"
  by (induction rule: program_trace.induct) (simp_all add: alloc_lists loop_trace_no_alloc)

lemma program_trace_render:
  "program_trace t \<Longrightarrow> filter is_render t \<noteq> [] \<Longrightarrow>
   filter is_allocation t =
      [SDL (SDL_CreateWindow ''rtobj'' 1280 720), OSP (ospNewFrameBuffer 1280 720 OSP_FB_SRGBA),
       GL (glTexStorage2D GL_TEXTURE_2D GL_RGBA8 1280 720)]"
  by (induction rule: program_trace.induct)
     (simp_all add: alloc_lists render_lists loop_trace_no_alloc)

section \<open>Lemmas: the paths through \<^verbatim>\<open>run_app\<close> and \<^verbatim>\<open>main\<close>\<close>

lemma push_indices: "foldl (\<lambda>a i. a @ [f i]) idx xs = idx @ map f xs"
  by (induction xs arbitrary: idx) simp_all

lemma collect_shapes_fst:
  "fst (collect_shapes ss (idx, w)) = idx @ concat (map (\<lambda>s. map vertex_index (indices (mesh s))) ss)"
  by (induction ss arbitrary: idx w) (simp_all add: push_indices)

lemma collect_shapes_calls: "calls (snd (collect_shapes ss (idx, w))) = calls w"
  by (induction ss arbitrary: idx w) (simp_all add: put_cout_def)

lemma collect_shapes_cerr: "cerr (snd (collect_shapes ss (idx, w))) = cerr w"
  by (induction ss arbitrary: idx w) (simp_all add: put_cout_def)

lemma collect_shapes_cout: "\<exists>tail. cout (snd (collect_shapes ss (idx, w))) = cout w @ tail"
proof (induction ss arbitrary: idx w)
  case Nil
  show ?case by simp
next
  case (Cons s ss)
  let ?msg = "''Loading shape '' @ name s @ '', has ''
                  @ decimal (length (indices (mesh s)) div 3) @ '' triangles\<newline>''"
  let ?idx = "foldl (\<lambda>a i. a @ [vertex_index i]) idx (indices (mesh s))"
  from Cons.IH [of ?idx "put_cout ?msg w"] obtain tail where
    "cout (snd (collect_shapes ss (?idx, put_cout ?msg w))) = cout (put_cout ?msg w) @ tail"
    by blast
  then have "cout (snd (collect_shapes (s # ss) (idx, w))) = cout w @ ?msg @ tail"
    by (simp add: put_cout_def)
  then show ?case by blast
qed

lemma triangle_count:
  "\<forall>s\<in>set ss. 3 dvd length (indices (mesh s)) \<Longrightarrow>
   length (concat (map (\<lambda>s. map vertex_index (indices (mesh s))) ss))
     = 3 * sum_list (map (\<lambda>s. length (indices (mesh s)) div 3) ss)"
  by (induction ss) (auto simp: distrib_left)

lemma after_load_simps:
  "calls (after_load env path w0) = calls w0 @ [ArcballCamera_new, tinyobj_LoadObj path]"
  "cerr (after_load env path w0) = cerr w0"
  "cout (after_load env path w0) = cout w0 @
     (if warn (LoadObj env path) \<noteq> []
      then ''Warning loading model: '' @ warn (LoadObj env path) @ ''\<newline>'' else [])"
  by (simp_all add: after_load_def call_def put_cout_def Let_def)

lemma run_app_err:
  "err (LoadObj env path) \<noteq> [] \<Longrightarrow>
   run_app env (prog # path # args) w0 =
     (Exited (Exit 1),
      put_cerr (''Error loading model: '' @ err (LoadObj env path) @ ''\<newline>'')
        (after_load env path w0))"
  by (simp add: run_app_def after_load_def Let_def)

lemma run_app_not_ret:
  "err (LoadObj env path) = [] \<Longrightarrow> \<not> ret (LoadObj env path) \<Longrightarrow>
   run_app env (prog # path # args) w0 =
     (Exited (Exit 1),
      put_cerr (''Failed to load OBJ model '' @ [CHR 0x27] @ path @ [CHR 0x27]
                @ '', aborting\<newline>'') (after_load env path w0))"
  by (simp add: run_app_def after_load_def Let_def)

lemma run_app_osp_fail:
  "err (LoadObj env path) = [] \<Longrightarrow> ret (LoadObj env path) \<Longrightarrow>
   ospInit_result env \<noteq> OSP_NO_ERROR \<Longrightarrow>
   run_app env (prog # path # args) w0 =
     (Exited (Uncaught_runtime_error ''Failed to init OSPRay''),
      put_cout ''Failed to init OSPRay\<newline>''
        (call [OSP ospInit]
           (snd (collect_shapes (shapes (LoadObj env path)) ([], after_load env path w0)))))"
  by (simp add: run_app_def after_load_def Let_def case_prod_beta)

lemma run_app_loop:
  assumes "err (LoadObj env path) = []" and "ret (LoadObj env path)"
    and "ospInit_result env = OSP_NO_ERROR"
  shows "\<exists>st. run_app env (prog # path # args) w0 = (if done_flag st then Returned else Running, fx st)
      \<and> st = main_loop env (pending_events env)
          \<lparr>done_flag = False, io = GetIO env, camera = ArcballCamera env,
           cam_pos = eye_pos env (ArcballCamera env), cam_dir = eye_dir env (ArcballCamera env),
           cam_up = up_dir env (ArcballCamera env),
           fx = call (scene_setup (vertices (attrib (LoadObj env path)))
                       (fst (collect_shapes (shapes (LoadObj env path)) ([], after_load env path w0)))
                       (eye_pos env (ArcballCamera env)) (eye_dir env (ArcballCamera env))
                       (up_dir env (ArcballCamera env)))
                  (call [OSP ospInit]
                    (snd (collect_shapes (shapes (LoadObj env path)) ([], after_load env path w0))))\<rparr>"
  using assms by (simp add: run_app_def after_load_def Let_def case_prod_beta)

lemma started_simps:
  "calls (started :: 'f effects) = SDL SDL_Init # window_calls @ imgui_calls"
  "cout (started :: 'f effects) = []" "cerr (started :: 'f effects) = []"
  by (simp_all add: started_def call_def no_effects_def)

lemma main_started:
  assumes "SDL_Init_result env = 0" and "ogl_LoadFunctions_result env \<noteq> ogl_LOAD_FAILED"
  shows "main env (prog # path # args) =
    (case run_app env (prog # path # args) started of
       (Exited oc, w) \<Rightarrow> (Some oc, w)
     | (Running, w) \<Rightarrow> (None, w)
     | (Returned, w) \<Rightarrow> (Some (Exit 0), call shutdown_calls w))"
  using assms by (simp add: main_def started_def Let_def)

lemma main_usage:
  "main env [prog] = (Some (Exit 1),
     \<lparr>cout = ''Usage: '' @ prog @ '' <obj file>\<newline>'', cerr = [], calls = []\<rparr>)"
  by (simp add: main_def put_cout_def no_effects_def)

lemma main_sdl_fail:
  "SDL_Init_result env \<noteq> 0 \<Longrightarrow>
   main env (prog # path # args) = (Some (Exit (- 1)),
     \<lparr>cout = [], cerr = ''Failed to init SDL: '' @ SDL_GetError env @ ''\<newline>'',
      calls = [SDL SDL_Init]\<rparr>)"
  by (simp add: main_def put_cerr_def call_def no_effects_def)

lemma main_ogl_fail:
  "SDL_Init_result env = 0 \<Longrightarrow> ogl_LoadFunctions_result env = ogl_LOAD_FAILED \<Longrightarrow>
   main env (prog # path # args) = (Some (Exit 1),
     \<lparr>cout = [], cerr = ''Failed to initialize OpenGL\<newline>'',
      calls = SDL SDL_Init # window_calls\<rparr>)"
  by (simp add: main_def put_cerr_def call_def no_effects_def Let_def)

lemma main_err:
  assumes "SDL_Init_result env = 0" and "ogl_LoadFunctions_result env \<noteq> ogl_LOAD_FAILED"
    and "err (LoadObj env path) \<noteq> []"
  shows "main env (prog # path # args) =
     (Some (Exit 1),
      put_cerr (''Error loading model: '' @ err (LoadObj env path) @ ''\<newline>'')
        (after_load env path started))"
  by (simp add: main_started [OF assms(1,2)] run_app_err [OF assms(3)])

lemma main_not_ret:
  assumes "SDL_Init_result env = 0" and "ogl_LoadFunctions_result env \<noteq> ogl_LOAD_FAILED"
    and "err (LoadObj env path) = []" and "\<not> ret (LoadObj env path)"
  shows "main env (prog # path # args) =
     (Some (Exit 1),
      put_cerr (''Failed to load OBJ model '' @ [CHR 0x27] @ path @ [CHR 0x27]
                @ '', aborting\<newline>'') (after_load env path started))"
  by (simp add: main_started [OF assms(1,2)] run_app_not_ret [OF assms(3,4)])

lemma main_osp_fail:
  assumes "SDL_Init_result env = 0" and "ogl_LoadFunctions_result env \<noteq> ogl_LOAD_FAILED"
    and "err (LoadObj env path) = []" and "ret (LoadObj env path)"
    and "ospInit_result env \<noteq> OSP_NO_ERROR"
  shows "main env (prog # path # args) =
     (Some (Uncaught_runtime_error ''Failed to init OSPRay''),
      put_cout ''Failed to init OSPRay\<newline>''
        (call [OSP ospInit]
           (snd (collect_shapes (shapes (LoadObj env path)) ([], after_load env path started)))))"
  by (simp add: main_started [OF assms(1,2)] run_app_osp_fail [OF assms(3,4,5)])

lemma main_loop_reached:
  assumes "SDL_Init_result env = 0" and "ogl_LoadFunctions_result env \<noteq> ogl_LOAD_FAILED"
    and "err (LoadObj env path) = []" and "ret (LoadObj env path)"
    and "ospInit_result env = OSP_NO_ERROR"
  shows "fst (main env (prog # path # args)) \<in> {None, Some (Exit 0)}
     \<and> cerr (snd (main env (prog # path # args))) = []
     \<and> cout (snd (main env (prog # path # args)))
         = cout (snd (collect_shapes (shapes (LoadObj env path)) ([], after_load env path started)))
     \<and> OSP ospInit \<in> set (calls (snd (main env (prog # path # args))))"
proof -
  from run_app_loop [OF assms(3,4,5), of prog args started] obtain st st0 where
    r: "run_app env (prog # path # args) started = (if done_flag st then Returned else Running, fx st)"
    and st: "st = main_loop env (pending_events env) st0"
    and st0: "st0 = \<lparr>done_flag = False, io = GetIO env, camera = ArcballCamera env,
       cam_pos = eye_pos env (ArcballCamera env), cam_dir = eye_dir env (ArcballCamera env),
       cam_up = up_dir env (ArcballCamera env),
       fx = call (scene_setup (vertices (attrib (LoadObj env path)))
                   (fst (collect_shapes (shapes (LoadObj env path)) ([], after_load env path started)))
                   (eye_pos env (ArcballCamera env)) (eye_dir env (ArcballCamera env))
                   (up_dir env (ArcballCamera env)))
              (call [OSP ospInit]
                (snd (collect_shapes (shapes (LoadObj env path)) ([], after_load env path started))))\<rparr>"
    by blast
  from main_loop_trace [of env "pending_events env" st0] st obtain t where
    t: "calls (fx st) = calls (fx st0) @ t"
    by blast
  have out: "cout (fx st) = cout (fx st0)" "cerr (fx st) = cerr (fx st0)"
    by (simp_all add: st main_loop_out)
  have c0: "cerr (fx st0) = []"
    "cout (fx st0) = cout (snd (collect_shapes (shapes (LoadObj env path)) ([], after_load env path started)))"
    "OSP ospInit \<in> set (calls (fx st0))"
    by (simp_all add: st0 call_def collect_shapes_cerr after_load_simps started_simps)
  show ?thesis
    by (cases "done_flag st") (simp_all add: main_started [OF assms(1,2)] r call_def out c0 t)
qed

lemma main_trace: "program_trace (calls (snd (main env argv)))"
proof (cases argv)
  case Nil
  then show ?thesis by (simp add: main_def put_cout_def no_effects_def trace_usage)
next
  case (Cons prog rest)
  note argv = this
  show ?thesis
  proof (cases rest)
    case Nil
    with argv show ?thesis by (simp add: main_usage trace_usage)
  next
    case (Cons path args)
    with argv have a: "argv = prog # path # args" by simp
    consider (sdl) "SDL_Init_result env \<noteq> 0"
      | (ogl) "SDL_Init_result env = 0" "ogl_LoadFunctions_result env = ogl_LOAD_FAILED"
      | (err) "SDL_Init_result env = 0" "ogl_LoadFunctions_result env \<noteq> ogl_LOAD_FAILED"
          "err (LoadObj env path) \<noteq> []"
      | (ret) "SDL_Init_result env = 0" "ogl_LoadFunctions_result env \<noteq> ogl_LOAD_FAILED"
          "err (LoadObj env path) = []" "\<not> ret (LoadObj env path)"
      | (osp) "SDL_Init_result env = 0" "ogl_LoadFunctions_result env \<noteq> ogl_LOAD_FAILED"
          "err (LoadObj env path) = []" "ret (LoadObj env path)"
          "ospInit_result env \<noteq> OSP_NO_ERROR"
      | (loop) "SDL_Init_result env = 0" "ogl_LoadFunctions_result env \<noteq> ogl_LOAD_FAILED"
          "err (LoadObj env path) = []" "ret (LoadObj env path)"
          "ospInit_result env = OSP_NO_ERROR"
      by blast
    then show ?thesis
    proof cases
      case sdl
      then show ?thesis by (simp add: a main_sdl_fail trace_sdl)
    next
      case ogl
      then show ?thesis by (simp add: a main_ogl_fail trace_window)
    next
      case err
      have "calls (snd (main env argv)) = startup_calls path"
        by (simp add: a main_started [OF err(1,2)] run_app_err [OF err(3)] put_cerr_def
            after_load_simps started_simps startup_calls_def)
      then show ?thesis by (simp add: trace_load)
    next
      case ret
      have "calls (snd (main env argv)) = startup_calls path"
        by (simp add: a main_started [OF ret(1,2)] run_app_not_ret [OF ret(3,4)] put_cerr_def
            after_load_simps started_simps startup_calls_def)
      then show ?thesis by (simp add: trace_load)
    next
      case osp
      have "calls (snd (main env argv)) = startup_calls path @ [OSP ospInit]"
        by (simp add: a main_started [OF osp(1,2)] run_app_osp_fail [OF osp(3,4,5)] put_cout_def
            call_def collect_shapes_calls after_load_simps started_simps startup_calls_def)
      then show ?thesis by (simp add: trace_osp)
    next
      case loop
      from run_app_loop [OF loop(3,4,5), of prog args started] obtain st st0 where
        r: "run_app env (prog # path # args) started = (if done_flag st then Returned else Running, fx st)"
        and st: "st = main_loop env (pending_events env) st0"
        and st0: "st0 = \<lparr>done_flag = False, io = GetIO env, camera = ArcballCamera env,
           cam_pos = eye_pos env (ArcballCamera env), cam_dir = eye_dir env (ArcballCamera env),
           cam_up = up_dir env (ArcballCamera env),
           fx = call (scene_setup (vertices (attrib (LoadObj env path)))
                       (fst (collect_shapes (shapes (LoadObj env path)) ([], after_load env path started)))
                       (eye_pos env (ArcballCamera env)) (eye_dir env (ArcballCamera env))
                       (up_dir env (ArcballCamera env)))
                  (call [OSP ospInit]
                    (snd (collect_shapes (shapes (LoadObj env path)) ([], after_load env path started))))\<rparr>"
        by blast
      from main_loop_trace [of env "pending_events env" st0] st obtain t where
        t: "calls (fx st) = calls (fx st0) @ t" "loop_trace t"
        by blast
      obtain vs idx p d u where
        c0: "calls (fx st0) = startup_calls path @ [OSP ospInit] @ scene_setup vs idx p d u"
        by (simp add: st0 call_def collect_shapes_calls after_load_simps started_simps
            startup_calls_def)
      show ?thesis
      proof (cases "done_flag st")
        case True
        then have "calls (snd (main env argv))
            = startup_calls path @ [OSP ospInit] @ scene_setup vs idx p d u @ t @ shutdown_calls"
          by (simp add: a main_started [OF loop(1,2)] r call_def t(1) c0)
        then show ?thesis by (simp add: trace_return [OF t(2)])
      next
        case False
        then have "calls (snd (main env argv))
            = startup_calls path @ [OSP ospInit] @ scene_setup vs idx p d u @ t"
          by (simp add: a main_started [OF loop(1,2)] r t(1) c0)
        then show ?thesis by (simp add: trace_loop [OF t(2)])
      qed
    qed
  qed
qed

lemma demo_run:
  "main demo_env demo_argv =
     (Some (Exit 0),
      \<lparr>cout = ''Warning loading model: no material file\<newline>Loading shape quad, has 2 triangles\<newline>'',
       cerr = [],
       calls = startup_calls ''quad.obj''
         @ OSP ospInit
         # scene_setup [0, 0, 0, 1, 0, 0, 0, 1, 0, 1, 1, 0] [0, 1, 2, 2, 1, 3]
             (0, 0, 100) (0, 0, - 1) (0, 1, 0)
         @ [ImGui (ImGui_ImplSDL2_ProcessEvent resized), ImGui (ImGui_ImplSDL2_ProcessEvent drag),
            ArcballCamera_mouse drag 0.016]
         @ overlay_calls @ render_calls (5, 0, 100) (0, 0, - 1) (0, 1, 0)
         @ [ImGui (ImGui_ImplSDL2_ProcessEvent escape_down)]
         @ overlay_calls @ render_calls (5, 0, 100) (0, 0, - 1) (0, 1, 0)
         @ shutdown_calls\<rparr>)"
  by code_simp

section \<open>The properties\<close>

text \<open>
  C1. When \<^verbatim>\<open>render\<close> is called twice in a row with the same camera parameters and
  \<^verbatim>\<open>camera_changed\<close> is false in the second call, the second call does not upload the
  camera-dependent launch parameters again: their stored value and the number of
  uploads are what the first call left.
\<close>

theorem render_keeps_camera_parameters:
  "launch_params (render pos dir up fovy False (render pos dir up fovy changed r))
     = launch_params (render pos dir up fovy changed r)
   \<and> uploads (render pos dir up fovy False (render pos dir up fovy changed r))
     = uploads (render pos dir up fovy changed r)"
  by (simp add: render_def Let_def)

theorem render_keeps_camera_parameters_witness:
  "launch_params (render (5, 0, 100) (0, 0, - 1) (0, 1, 0) 65 False
                    (render (5, 0, 100) (0, 0, - 1) (0, 1, 0) 65 True new_optix))
     = Some \<lparr>view_pos = (5, 0, 100), view_dir = (0, 0, - 1), view_up = (0, 1, 0), view_fovy = 65\<rparr>
   \<and> uploads (render (5, 0, 100) (0, 0, - 1) (0, 1, 0) 65 False
                 (render (5, 0, 100) (0, 0, - 1) (0, 1, 0) 65 True new_optix)) = 1"
  using render_keeps_camera_parameters [of "(5, 0, 100)" "(0, 0, - 1)" "(0, 1, 0)" 65 True new_optix]
  by (simp add: render_def update_view_parameters_def new_optix_def Let_def)

text \<open>
  C2. When the model is loaded without error, every shape being a list of triangles
  (three index records each), the two data arrays handed to OSPRay are: the flat vertex
  sequence, with a vertex count of its length divided by 3; and the vertex indices of
  all shapes, concatenated in order, of length \<open>3 * N\<close> and with \<open>N\<close> as the count, where \<open>N\<close>
  is the number of triangles of all shapes together.
\<close>

theorem scene_buffers_from_mesh:
  assumes "SDL_Init_result env = 0" and "ogl_LoadFunctions_result env \<noteq> ogl_LOAD_FAILED"
    and "r = LoadObj env path" and "err r = []" and "ret r"
    and "ospInit_result env = OSP_NO_ERROR"
    and "\<forall>s\<in>set (shapes r). 3 dvd length (indices (mesh s))"
    and "idx = concat (map (\<lambda>s. map vertex_index (indices (mesh s))) (shapes r))"
    and "N = sum_list (map (\<lambda>s. length (indices (mesh s)) div 3) (shapes r))"
  shows "filter is_ospNewData (calls (snd (main env (prog # path # args)))) =
           [OSP (ospNewData verts_data (length (vertices (attrib r)) div 3) OSP_FLOAT3
                   (FloatArray (vertices (attrib r)))),
            OSP (ospNewData indices_data N OSP_INT3 (IntArray idx))]
         \<and> length idx = 3 * N"
proof -
  have len: "length idx = 3 * N"
    using assms(7) by (simp add: assms(8,9) triangle_count)
  from assms(3,4,5) have l: "err (LoadObj env path) = []" "ret (LoadObj env path)"
    by simp_all
  from run_app_loop [OF l assms(6), of prog args started] obtain st st0 where
    r: "run_app env (prog # path # args) started = (if done_flag st then Returned else Running, fx st)"
    and st: "st = main_loop env (pending_events env) st0"
    and st0: "st0 = \<lparr>done_flag = False, io = GetIO env, camera = ArcballCamera env,
       cam_pos = eye_pos env (ArcballCamera env), cam_dir = eye_dir env (ArcballCamera env),
       cam_up = up_dir env (ArcballCamera env),
       fx = call (scene_setup (vertices (attrib (LoadObj env path)))
                   (fst (collect_shapes (shapes (LoadObj env path)) ([], after_load env path started)))
                   (eye_pos env (ArcballCamera env)) (eye_dir env (ArcballCamera env))
                   (up_dir env (ArcballCamera env)))
              (call [OSP ospInit]
                (snd (collect_shapes (shapes (LoadObj env path)) ([], after_load env path started))))\<rparr>"
    by blast
  from main_loop_trace [of env "pending_events env" st0] st obtain t where
    t: "calls (fx st) = calls (fx st0) @ t" "loop_trace t"
    by blast
  have c0: "filter is_ospNewData (calls (fx st0)) =
           [OSP (ospNewData verts_data (length (vertices (attrib r)) div 3) OSP_FLOAT3
                   (FloatArray (vertices (attrib r)))),
            OSP (ospNewData indices_data (length idx div 3) OSP_INT3 (IntArray idx))]"
    by (simp add: st0 call_def collect_shapes_calls collect_shapes_fst after_load_simps
        started_simps assms(3,8) scene_setup_def window_calls_def imgui_calls_def)
  have "filter is_ospNewData (calls (snd (main env (prog # path # args))))
      = filter is_ospNewData (calls (fx st0))"
    by (cases "done_flag st")
       (simp_all add: main_started [OF assms(1,2)] r call_def t(1) loop_trace_no_NewData [OF t(2)]
          shutdown_calls_def)
  with c0 len show ?thesis by simp
qed

theorem scene_buffers_from_mesh_witness:
  "SDL_Init_result demo_env = 0 \<and> ogl_LoadFunctions_result demo_env \<noteq> ogl_LOAD_FAILED
   \<and> err quad_obj = [] \<and> ret quad_obj \<and> ospInit_result demo_env = OSP_NO_ERROR
   \<and> list_all (\<lambda>s. 3 dvd length (indices (mesh s))) (shapes quad_obj)
   \<and> filter is_ospNewData (calls (snd (main demo_env [''rtobj'', ''quad.obj'']))) =
       [OSP (ospNewData verts_data 4 OSP_FLOAT3 (FloatArray [0, 0, 0, 1, 0, 0, 0, 1, 0, 1, 1, 0])),
        OSP (ospNewData indices_data 2 OSP_INT3 (IntArray [0, 1, 2, 2, 1, 3]))]
   \<and> length [0, 1, 2, 2, 1, 3 :: 32 word] = 3 * 2"
proof -
  have h1: "SDL_Init_result demo_env = 0"
    and h2: "ogl_LoadFunctions_result demo_env \<noteq> ogl_LOAD_FAILED"
    and h3: "quad_obj = LoadObj demo_env ''quad.obj''"
    and h6: "ospInit_result demo_env = OSP_NO_ERROR"
    by (simp_all add: demo_env_def)
  have h7: "\<forall>s\<in>set (shapes quad_obj). 3 dvd length (indices (mesh s))"
    by code_simp
  have h4: "err quad_obj = []" and h5: "ret quad_obj"
    and h8: "[0, 1, 2, 2, 1, 3] = concat (map (\<lambda>s. map vertex_index (indices (mesh s))) (shapes quad_obj))"
    and h9: "2 = sum_list (map (\<lambda>s. length (indices (mesh s)) div 3) (shapes quad_obj))"
    and v: "vertices (attrib quad_obj) = [0, 0, 0, 1, 0, 0, 0, 1, 0, 1, 1, 0]"
    by (simp_all add: quad_obj_def)
  from scene_buffers_from_mesh [OF h1 h2 h3 h4 h5 h6 h7 h8 h9, of "''rtobj''" "[]"] h1 h2 h4 h5 h6 h7
  show ?thesis by (simp add: v list_all_iff)
qed

text \<open>
  C3. The loop is running (\<open>done_flag\<close> false) or terminated. Starting an iteration
  while running, it is terminated after the events of the iteration have been polled
  exactly when one of them is a quit signal, an escape key press while the overlay
  does not capture the keyboard, or a close signal for the window of the application.
  In that case the loop finishes this iteration and polls no further events; otherwise
  it goes on to the next iteration.
\<close>

theorem loop_ends_on_quit_escape_close:
  assumes "\<not> done_flag st"
  shows "(done_flag (poll_events env events st) \<longleftrightarrow>
            (\<exists>i<length events.
               ends_loop env (foldl (ProcessEvent env) (io st) (take (Suc i) events)) (events ! i)))
         \<and> (done_flag (poll_events env events st) \<longrightarrow>
              done_flag (loop_body env events st)
              \<and> main_loop env (events # rest) st = loop_body env events st)
         \<and> (\<not> done_flag (poll_events env events st) \<longrightarrow>
              \<not> done_flag (loop_body env events st)
              \<and> main_loop env (events # rest) st = main_loop env rest (loop_body env events st))"
proof -
  have d: "done_flag (loop_body env events st) = done_flag (poll_events env events st)"
    by (simp add: loop_body_def present_frame_done)
  have stop: "done_flag s \<Longrightarrow> main_loop env rest s = s" for s
    by (cases rest) simp_all
  from assms show ?thesis
    by (simp add: poll_events_done d stop)
qed

theorem loop_ends_on_quit_escape_close_witness:
  "\<not> done_flag demo_app
   \<and> done_flag (poll_events demo_env [resized, escape_down] demo_app)
   \<and> main_loop demo_env ([resized, escape_down] # [drag] # []) demo_app
       = loop_body demo_env [resized, escape_down] demo_app
   \<and> \<not> done_flag (poll_events demo_env [resized, drag] demo_app)
   \<and> main_loop demo_env ([resized, drag] # [escape_down] # []) demo_app
       = main_loop demo_env ([escape_down] # []) (loop_body demo_env [resized, drag] demo_app)"
proof -
  have h: "\<not> done_flag demo_app"
    by (simp add: demo_app_def)
  have e: "\<exists>i<length [resized, escape_down].
      ends_loop demo_env (foldl (ProcessEvent demo_env) (io demo_app) (take (Suc i) [resized, escape_down]))
        ([resized, escape_down] ! i)"
    by (rule exI [of _ 1])
       (simp add: ends_loop_def demo_env_def demo_app_def escape_down_def blank_event_def)
  have n: "\<not> (\<exists>i<length [resized, drag].
      ends_loop demo_env (foldl (ProcessEvent demo_env) (io demo_app) (take (Suc i) [resized, drag]))
        ([resized, drag] ! i))"
    by (simp add: ex_less_Suc ends_loop_def demo_env_def demo_app_def resized_def drag_def
        blank_event_def)
  from loop_ends_on_quit_escape_close [OF h, of demo_env "[resized, escape_down]" "[drag] # []"]
       loop_ends_on_quit_escape_close [OF h, of demo_env "[resized, drag]" "[escape_down] # []"] h e n
  show ?thesis by blast
qed

text \<open>
  C4. Called with fewer than two arguments (and a program name in \<^verbatim>\<open>argv[0]\<close>), the
  program prints the usage line with the program name on standard output and returns 1,
  having made no call at all: no window, no model, no rendering.
\<close>

theorem usage_without_model_argument:
  assumes "length argv < 2" and "argv \<noteq> []"
  shows "main env argv = (Some (Exit 1),
           \<lparr>cout = ''Usage: '' @ argv ! 0 @ '' <obj file>\<newline>'', cerr = [], calls = []\<rparr>)"
proof -
  from assms obtain prog where "argv = [prog]"
    by (cases argv) auto
  then show ?thesis by (simp add: main_usage)
qed

theorem usage_without_model_argument_witness:
  "length [''rtobj''] < 2 \<and> [''rtobj''] \<noteq> []
   \<and> main demo_env [''rtobj''] =
       (Some (Exit 1), \<lparr>cout = ''Usage: rtobj <obj file>\<newline>'', cerr = [], calls = []\<rparr>)"
  using usage_without_model_argument [of "[''rtobj'']" demo_env] by simp

text \<open>
  C5. Once the window and OpenGL are set up: a warning of the loader is printed and, if
  the loader reports no error and succeeds, execution goes on to the initialisation of
  OSPRay with nothing written to standard error; an error of the loader is printed to
  standard error and the process exits with status 1; a failure without error message
  prints a message with the path of the file to standard error and the process exits
  with status 1.
\<close>

theorem model_load_warnings_and_errors:
  assumes "SDL_Init_result env = 0" and "ogl_LoadFunctions_result env \<noteq> ogl_LOAD_FAILED"
    and "r = LoadObj env path" and "m = main env (prog # path # args)"
  shows "(warn r \<noteq> [] \<longrightarrow>
            (\<exists>tail. cout (snd m) = ''Warning loading model: '' @ warn r @ ''\<newline>'' @ tail))
       \<and> (err r = [] \<and> ret r \<longrightarrow>
            OSP ospInit \<in> set (calls (snd m)) \<and> cerr (snd m) = [] \<and> fst m \<noteq> Some (Exit 1))
       \<and> (err r \<noteq> [] \<longrightarrow>
            fst m = Some (Exit 1)
            \<and> cerr (snd m) = ''Error loading model: '' @ err r @ ''\<newline>'')
       \<and> (err r = [] \<and> \<not> ret r \<longrightarrow>
            fst m = Some (Exit 1)
            \<and> cerr (snd m) = ''Failed to load OBJ model '' @ [CHR 0x27] @ path @ [CHR 0x27]
                                @ '', aborting\<newline>'')"
proof -
  note ok = assms(1,2)
  obtain tail where tail:
    "cout (snd (collect_shapes (shapes r) ([], after_load env path started)))
       = cout (after_load env path (started :: 'c effects)) @ tail"
    using collect_shapes_cout by blast
  consider (err) "err r \<noteq> []" | (ret) "err r = []" "\<not> ret r"
    | (osp) "err r = []" "ret r" "ospInit_result env \<noteq> OSP_NO_ERROR"
    | (loop) "err r = []" "ret r" "ospInit_result env = OSP_NO_ERROR"
    by blast
  then show ?thesis
  proof cases
    case err
    then show ?thesis
      using main_err [OF ok, of path prog args]
      by (simp add: assms(3,4) put_cerr_def after_load_simps started_simps)
  next
    case ret
    then show ?thesis
      using main_not_ret [OF ok, of path prog args]
      by (simp add: assms(3,4) put_cerr_def after_load_simps started_simps)
  next
    case osp
    then show ?thesis
      using main_osp_fail [OF ok, of path prog args] tail
      by (simp add: assms(3,4) put_cout_def call_def collect_shapes_cerr collect_shapes_calls
          after_load_simps started_simps)
  next
    case loop
    then show ?thesis
      using main_loop_reached [OF ok, of path prog args] tail
      by (auto simp add: assms(3,4) after_load_simps started_simps)
  qed
qed

theorem model_load_warnings_and_errors_witness:
  "SDL_Init_result demo_env = 0 \<and> ogl_LoadFunctions_result demo_env \<noteq> ogl_LOAD_FAILED
   \<and> warn (LoadObj demo_env ''quad.obj'') \<noteq> [] \<and> err (LoadObj demo_env ''quad.obj'') = []
   \<and> ret (LoadObj demo_env ''quad.obj'')
   \<and> (\<exists>tail. cout (snd (main demo_env [''rtobj'', ''quad.obj'']))
          = ''Warning loading model: no material file\<newline>'' @ tail)
   \<and> OSP ospInit \<in> set (calls (snd (main demo_env [''rtobj'', ''quad.obj''])))
   \<and> err (LoadObj demo_env ''missing.obj'') \<noteq> []
   \<and> fst (main demo_env [''rtobj'', ''missing.obj'']) = Some (Exit 1)
   \<and> cerr (snd (main demo_env [''rtobj'', ''missing.obj'']))
       = ''Error loading model: Cannot open file [missing.obj]\<newline>''
   \<and> SDL_Init_result silent_env = 0 \<and> ogl_LoadFunctions_result silent_env \<noteq> ogl_LOAD_FAILED
   \<and> err (LoadObj silent_env ''missing.obj'') = [] \<and> \<not> ret (LoadObj silent_env ''missing.obj'')
   \<and> fst (main silent_env [''rtobj'', ''missing.obj'']) = Some (Exit 1)
   \<and> cerr (snd (main silent_env [''rtobj'', ''missing.obj'']))
       = ''Failed to load OBJ model '' @ [CHR 0x27] @ ''missing.obj'' @ [CHR 0x27] @ '', aborting\<newline>''"
proof -
  have h: "SDL_Init_result demo_env = 0" "ogl_LoadFunctions_result demo_env \<noteq> ogl_LOAD_FAILED"
    by (simp_all add: demo_env_def)
  have s: "SDL_Init_result silent_env = 0" "ogl_LoadFunctions_result silent_env \<noteq> ogl_LOAD_FAILED"
    by (simp_all add: silent_env_def demo_env_def)
  have q: "warn (LoadObj demo_env ''quad.obj'') = ''no material file''"
    "err (LoadObj demo_env ''quad.obj'') = []" "ret (LoadObj demo_env ''quad.obj'')"
    by (simp_all add: demo_env_def quad_obj_def)
  have m: "err (LoadObj demo_env ''missing.obj'') = ''Cannot open file [missing.obj]''"
    by (simp add: demo_env_def no_obj_def)
  have n: "err (LoadObj silent_env ''missing.obj'') = []" "\<not> ret (LoadObj silent_env ''missing.obj'')"
    by (simp_all add: silent_env_def demo_env_def no_obj_def)
  from model_load_warnings_and_errors [OF h refl refl, of "''quad.obj''" "''rtobj''" "[]"]
       model_load_warnings_and_errors [OF h refl refl, of "''missing.obj''" "''rtobj''" "[]"]
       model_load_warnings_and_errors [OF s refl refl, of "''missing.obj''" "''rtobj''" "[]"]
       h s q m n
  show ?thesis by simp
qed





text \<open>
  C8. In every run the allocations are, at most and in this order, the window of
  1280 by 720, the frame buffer of 1280 by 720 in packed sRGB with alpha, and the
  texture storage of 1280 by 720 in RGBA8, each once; whenever a frame is rendered all
  three have been made, and the frame is rendered into that frame buffer; every texture
  upload copies 1280 by 720 packed RGBA bytes from its mapping; and the loop allocates
  nothing, whatever events it polls.
\<close>

theorem fixed_resolution:
  "filter is_allocation (calls (snd (main env argv))) \<in>
     {[], [SDL (SDL_CreateWindow ''rtobj'' 1280 720)],
      [SDL (SDL_CreateWindow ''rtobj'' 1280 720), OSP (ospNewFrameBuffer 1280 720 OSP_FB_SRGBA),
       GL (glTexStorage2D GL_TEXTURE_2D GL_RGBA8 1280 720)]}
   \<and> (\<forall>f r. OSP (ospRenderFrame f r) \<in> set (calls (snd (main env argv))) \<longrightarrow>
         f = osp_fb
         \<and> filter is_allocation (calls (snd (main env argv))) =
             [SDL (SDL_CreateWindow ''rtobj'' 1280 720),
              OSP (ospNewFrameBuffer 1280 720 OSP_FB_SRGBA),
              GL (glTexStorage2D GL_TEXTURE_2D GL_RGBA8 1280 720)])
   \<and> (\<forall>t w h f ty p. GL (glTexSubImage2D t w h f ty p) \<in> set (calls (snd (main env argv))) \<longrightarrow>
         w = 1280 \<and> h = 720 \<and> f = GL_RGBA \<and> ty = GL_UNSIGNED_BYTE \<and> p = Mapped osp_fb)
   \<and> filter is_allocation (new_calls st (main_loop env batches st)) = []"
proof -
  let ?cs = "calls (snd (main env argv))"
  have tr: "program_trace ?cs" by (rule main_trace)
  have fs: "\<And>c. c \<in> set ?cs \<Longrightarrow> fixed_size c"
    using program_trace_fixed_size [OF tr] by (simp add: list_all_iff)
  have rd: "filter is_allocation ?cs =
             [SDL (SDL_CreateWindow ''rtobj'' 1280 720),
              OSP (ospNewFrameBuffer 1280 720 OSP_FB_SRGBA),
              GL (glTexStorage2D GL_TEXTURE_2D GL_RGBA8 1280 720)]"
    if "OSP (ospRenderFrame f r) \<in> set ?cs" for f r
  proof -
    from that have "\<exists>c\<in>set ?cs. is_render c"
      by (rule rev_bexI) simp
    then have "filter is_render ?cs \<noteq> []"
      by (simp add: filter_empty_conv)
    with tr show ?thesis by (rule program_trace_render)
  qed
  from main_loop_trace [of env batches st] obtain t where
    t: "calls (fx (main_loop env batches st)) = calls (fx st) @ t" "loop_trace t"
    by blast
  have "filter is_allocation (new_calls st (main_loop env batches st)) = []"
    by (simp add: new_calls_def t(1) loop_trace_no_alloc [OF t(2)])
  with program_trace_alloc [OF tr] fs rd show ?thesis
    by (fastforce dest: fs)
qed

theorem fixed_resolution_witness:
  "OSP (ospRenderFrame osp_fb renderer) \<in> set (calls (snd (main demo_env demo_argv)))
   \<and> GL (glTexSubImage2D GL_TEXTURE_2D 1280 720 GL_RGBA GL_UNSIGNED_BYTE (Mapped osp_fb))
       \<in> set (calls (snd (main demo_env demo_argv)))
   \<and> filter is_allocation (calls (snd (main demo_env demo_argv))) =
       [SDL (SDL_CreateWindow ''rtobj'' 1280 720), OSP (ospNewFrameBuffer 1280 720 OSP_FB_SRGBA),
        GL (glTexStorage2D GL_TEXTURE_2D GL_RGBA8 1280 720)]
   \<and> filter is_allocation (new_calls demo_app (main_loop demo_env ([resized] # []) demo_app)) = []"
proof -
  have r: "OSP (ospRenderFrame osp_fb renderer) \<in> set (calls (snd (main demo_env demo_argv)))"
    by (simp add: demo_run render_calls_def)
  have t: "GL (glTexSubImage2D GL_TEXTURE_2D 1280 720 GL_RGBA GL_UNSIGNED_BYTE (Mapped osp_fb))
       \<in> set (calls (snd (main demo_env demo_argv)))"
    by (simp add: demo_run render_calls_def)
  from fixed_resolution [of demo_env demo_argv demo_app "[resized] # []"] r t show ?thesis
    by blast
qed

text \<open>
  C9. Every call of the mouse handler of the camera in a run passes the time step
  0.016, and the camera state after an event is that of the handler applied with 0.016
  (or unchanged): nothing of the timing of the frames enters.
\<close>

theorem camera_time_step:
  "(\<forall>e dt. ArcballCamera_mouse e dt \<in> set (calls (snd (main env argv))) \<longrightarrow> dt = 0.016)
   \<and> camera (handle_event env event st) =
       (if to_camera env (ProcessEvent env (io st) event) event
        then mouse env (camera st) event 0.016 else camera st)"
proof -
  have "list_all fixed_dt (calls (snd (main env argv)))"
    by (rule program_trace_fixed_dt) (rule main_trace)
  then have "\<And>c. c \<in> set (calls (snd (main env argv))) \<Longrightarrow> fixed_dt c"
    by (simp add: list_all_iff)
  then show ?thesis
    by (fastforce simp add: handle_event_camera)
qed

theorem camera_time_step_witness:
  "ArcballCamera_mouse drag 0.016 \<in> set (calls (snd (main demo_env demo_argv)))
   \<and> camera (handle_event demo_env drag demo_app) = mouse demo_env 0 drag 0.016
   \<and> camera (handle_event demo_env drag (demo_app\<lparr>io := True\<rparr>)) = 0"
proof -
  have m: "ArcballCamera_mouse drag 0.016 \<in> set (calls (snd (main demo_env demo_argv)))"
    by (simp add: demo_run)
  from camera_time_step [of demo_env demo_argv drag demo_app] camera_time_step [of demo_env demo_argv drag "demo_app\<lparr>io := True\<rparr>"] m
  show ?thesis
    by (simp add: to_camera_def demo_env_def demo_app_def drag_def blank_event_def)
qed

text \<open>
  C10. Over a whole run the use of the frame buffer passes the monitor and ends
  unmapped. In each iteration the frame buffer is mapped once, read once by the texture
  upload and unmapped once, in this order, and the calls of the iteration pass the
  monitor from unmapped to unmapped: no mapping survives an iteration.
\<close>

theorem frame_buffer_map_discipline:
  "fb_run False (calls (snd (main env argv))) = Some False
   \<and> filter fb_access (new_calls st (loop_body env events st)) =
       [OSP (ospMapFrameBuffer osp_fb),
        GL (glTexSubImage2D GL_TEXTURE_2D 1280 720 GL_RGBA GL_UNSIGNED_BYTE (Mapped osp_fb)),
        OSP (ospUnmapFrameBuffer (Mapped osp_fb) osp_fb)]
   \<and> fb_run False (new_calls st (loop_body env events st)) = Some False"
proof -
  from loop_body_calls [of env events st] obtain new p d u where
    n: "calls (fx (loop_body env events st)) = calls (fx st) @ new @ overlay_calls @ render_calls p d u"
       "list_all input_call new"
    by blast
  from n(2) have "filter fb_access new = []"
    by (simp add: list_all_iff filter_empty_conv input_call_props)
  moreover have "filter fb_access (overlay_calls @ render_calls p d u) =
       [OSP (ospMapFrameBuffer osp_fb),
        GL (glTexSubImage2D GL_TEXTURE_2D 1280 720 GL_RGBA GL_UNSIGNED_BYTE (Mapped osp_fb)),
        OSP (ospUnmapFrameBuffer (Mapped osp_fb) osp_fb)]"
    by (simp add: overlay_calls_def render_calls_def)
  moreover have "fb_run False (new @ overlay_calls @ render_calls p d u) = Some False"
    by (simp add: fb_run_append input_call_fb [OF n(2)] fb_run_overlay fb_run_render)
  moreover have "fb_run False (calls (snd (main env argv))) = Some False"
    by (rule program_trace_fb) (rule main_trace)
  ultimately show ?thesis
    by (simp add: new_calls_def n(1))
qed

theorem frame_buffer_map_discipline_witness:
  "fb_run False (calls (snd (main demo_env demo_argv))) = Some False
   \<and> filter fb_access (new_calls demo_app (loop_body demo_env [resized, drag] demo_app)) =
       [OSP (ospMapFrameBuffer osp_fb),
        GL (glTexSubImage2D GL_TEXTURE_2D 1280 720 GL_RGBA GL_UNSIGNED_BYTE (Mapped osp_fb)),
        OSP (ospUnmapFrameBuffer (Mapped osp_fb) osp_fb)]"
  using frame_buffer_map_discipline [of demo_env demo_argv demo_app "[resized, drag]"] by simp

end
